theory Spec2Isabelle
  imports Main "HOL-Library.Char_ord" "HOL-Library.List_Lexorder"
begin

section \<open>Announcements router of the High School Management System API\<close>

text \<open>
  A shallow embedding of \<^verbatim>\<open>src/backend/routers/announcements.py\<close>.
  Strings are byte strings ordered lexicographically (the order MongoDB's default
  binary collation uses for \<^verbatim>\<open>$gte\<close> and \<^verbatim>\<open>$lte\<close> on strings).
  The two global collections are passed explicitly, and every endpoint returns the
  collections as they are when it returns or raises. The two readings of the clock
  (\<^verbatim>\<open>datetime.now().strftime("%Y-%m-%d")\<close> and
  \<^verbatim>\<open>datetime.now().isoformat()\<close>) and the key that
  \<^verbatim>\<open>insert_one\<close> generates are inputs of the endpoints that use them.
\<close>

subsection \<open>Data model\<close>

text \<open>
  A store key. \<^verbatim>\<open>bson.ObjectId\<close> is an external library. Its constructor
  accepts a string of length 24 on which \<^verbatim>\<open>bytes.fromhex\<close> succeeds, and keeps
  the bytes that \<^verbatim>\<open>fromhex\<close> returns, however many they are;
  \<^verbatim>\<open>str\<close> gives those bytes back as lower-case hexadecimal text, two digits a
  byte. The bytes of a key are held here as that text, which determines them.
\<close>

datatype objectid = Oid string

definition is_hex :: "char \<Rightarrow> bool" where
  "is_hex c \<longleftrightarrow>
     (CHR ''0'' \<le> c \<and> c \<le> CHR ''9'') \<or> (CHR ''a'' \<le> c \<and> c \<le> CHR ''f'')
     \<or> (CHR ''A'' \<le> c \<and> c \<le> CHR ''F'')"

definition lower_hex :: "char \<Rightarrow> char" where
  "lower_hex c =
     (if CHR ''A'' \<le> c \<and> c \<le> CHR ''F'' then char_of (of_char c + (32::nat)) else c)"

text \<open>
  The ASCII whitespace that \<^verbatim>\<open>bytes.fromhex\<close> skips: tab, line feed, vertical
  tab, form feed, carriage return and space.
\<close>

definition is_space :: "char \<Rightarrow> bool" where
  "is_space c \<longleftrightarrow> (9 \<le> (of_char c :: nat) \<and> (of_char c :: nat) \<le> 13) \<or> c = CHR '' ''"

text \<open>
  \<^verbatim>\<open>bytes.fromhex(s)\<close>: whitespace is skipped before each byte, a byte is two
  adjacent hexadecimal digits, and anything else raises \<^verbatim>\<open>ValueError\<close>
  (\<open>None\<close>). The result is the lower-case hexadecimal text of the bytes.
\<close>

fun fromhex :: "string \<Rightarrow> string option" where
  "fromhex [] = Some []"
| "fromhex [c] = (if is_space c then Some [] else None)"
| "fromhex (c # d # ds) =
     (if is_space c then fromhex (d # ds)
      else if is_hex c \<and> is_hex d
        then map_option (\<lambda>h. lower_hex c # lower_hex d # h) (fromhex ds)
      else None)"

text \<open>\<^verbatim>\<open>ObjectId(s)\<close>: \<open>None\<close> stands for the exception \<^verbatim>\<open>InvalidId\<close>.\<close>

definition ObjectId :: "string \<Rightarrow> objectid option" where
  "ObjectId s = (if length s = 24 then map_option Oid (fromhex s) else None)"

fun str_oid :: "objectid \<Rightarrow> string" where
  "str_oid (Oid h) = h"

text \<open>
  An announcement. The field \<open>ident\<close> is the key \<^verbatim>\<open>_id\<close> of a stored document
  (an \<open>objectid\<close>) and the key \<^verbatim>\<open>id\<close> of a serialized one (a string). A stored
  document may lack \<^verbatim>\<open>start_date\<close> (the query of the public listing tests
  \<^verbatim>\<open>$exists\<close>): \<open>None\<close> is the absent field.
\<close>

record 'k announcement =
  ident :: 'k
  message :: string
  expiration_date :: string
  start_date :: "string option"
  created_by :: string
  created_at :: string

type_synonym doc = "objectid announcement"
type_synonym json = "string announcement"

text \<open>
  The two collections of \<^verbatim>\<open>..database\<close>. The announcements are kept in insertion
  order. This module reads a teacher document only through its key \<^verbatim>\<open>_id\<close> (the
  username), so a teacher document is its key.
\<close>

record database =
  announcements_collection :: "doc list"
  teachers_collection :: "string list"

datatype error =
    HTTPException nat string
  | DuplicateKeyError
  | AttributeError

subsection \<open>The collection operations used by the router\<close>

definition teachers_find_one :: "database \<Rightarrow> string \<Rightarrow> string option" where
  "teachers_find_one db username = find (\<lambda>t. t = username) (teachers_collection db)"

definition find_one :: "database \<Rightarrow> objectid \<Rightarrow> doc option" where
  "find_one db obj_id = find (\<lambda>d. ident d = obj_id) (announcements_collection db)"

text \<open>\<^verbatim>\<open>insert_one\<close>: the collection refuses a key it already holds.\<close>

definition insert_one :: "database \<Rightarrow> doc \<Rightarrow> error + database" where
  "insert_one db d =
     (if list_ex (\<lambda>e. ident e = ident d) (announcements_collection db)
      then Inl DuplicateKeyError
      else Inr (db\<lparr>announcements_collection := announcements_collection db @ [d]\<rparr>))"

text \<open>\<^verbatim>\<open>update_one({"_id": obj_id}, {"$set": ...})\<close> changes the first match.\<close>

fun set_first :: "objectid \<Rightarrow> (doc \<Rightarrow> doc) \<Rightarrow> doc list \<Rightarrow> doc list" where
  "set_first obj_id f [] = []"
| "set_first obj_id f (d # ds) =
     (if ident d = obj_id then f d # ds else d # set_first obj_id f ds)"

definition update_one :: "database \<Rightarrow> objectid \<Rightarrow> (doc \<Rightarrow> doc) \<Rightarrow> database" where
  "update_one db obj_id f =
     db\<lparr>announcements_collection := set_first obj_id f (announcements_collection db)\<rparr>"

text \<open>\<^verbatim>\<open>delete_one\<close> removes the first match and reports how many it removed.\<close>

fun remove_first :: "objectid \<Rightarrow> doc list \<Rightarrow> nat \<times> doc list" where
  "remove_first obj_id [] = (0, [])"
| "remove_first obj_id (d # ds) =
     (if ident d = obj_id then (1, ds)
      else (case remove_first obj_id ds of (n, ds') \<Rightarrow> (n, d # ds')))"

definition delete_one :: "database \<Rightarrow> objectid \<Rightarrow> nat \<times> database" where
  "delete_one db obj_id =
     (case remove_first obj_id (announcements_collection db) of
        (n, ds) \<Rightarrow> (n, db\<lparr>announcements_collection := ds\<rparr>))"

text \<open>
  \<^verbatim>\<open>.sort("created_at", -1)\<close>: descending by \<^verbatim>\<open>created_at\<close>. MongoDB leaves
  the order of equal keys open; the model keeps them in insertion order.
\<close>

definition sort_desc :: "doc list \<Rightarrow> doc list" where
  "sort_desc ds = rev (sort_key created_at (rev ds))"

subsection \<open>Date validation\<close>

text \<open>
  \<^verbatim>\<open>datetime.strptime(s, "%Y-%m-%d")\<close> of the standard library: the whole string
  must match \<^verbatim>\<open>\d\d\d\d-(1[0-2]|0[1-9]|[1-9])-(3[0-1]|[1-2]\d|0[1-9]|[1-9]| [1-9])\<close>
  and name a day of the calendar; \<open>None\<close> stands for \<^verbatim>\<open>ValueError\<close>.
  Strings are bytes here, so a digit is an ASCII digit; the decimal digits of other
  scripts, which \<^verbatim>\<open>\d\<close> also matches on a Python string, are not represented.
\<close>

definition is_digit :: "char \<Rightarrow> bool" where
  "is_digit c \<longleftrightarrow> CHR ''0'' \<le> c \<and> c \<le> CHR ''9''"

definition digit_val :: "char \<Rightarrow> nat" where
  "digit_val c = of_char c - 48"

fun parse_month :: "string \<Rightarrow> nat option" where
  "parse_month [a] =
     (if CHR ''1'' \<le> a \<and> a \<le> CHR ''9'' then Some (digit_val a) else None)"
| "parse_month [a, b] =
     (if a = CHR ''1'' \<and> CHR ''0'' \<le> b \<and> b \<le> CHR ''2'' then Some (10 + digit_val b)
      else if a = CHR ''0'' \<and> CHR ''1'' \<le> b \<and> b \<le> CHR ''9'' then Some (digit_val b)
      else None)"
| "parse_month _ = None"

fun parse_day :: "string \<Rightarrow> nat option" where
  "parse_day [a] =
     (if CHR ''1'' \<le> a \<and> a \<le> CHR ''9'' then Some (digit_val a) else None)"
| "parse_day [a, b] =
     (if a = CHR ''3'' \<and> CHR ''0'' \<le> b \<and> b \<le> CHR ''1'' then Some (30 + digit_val b)
      else if CHR ''1'' \<le> a \<and> a \<le> CHR ''2'' \<and> is_digit b
        then Some (10 * digit_val a + digit_val b)
      else if (a = CHR ''0'' \<or> a = CHR '' '') \<and> CHR ''1'' \<le> b \<and> b \<le> CHR ''9''
        then Some (digit_val b)
      else None)"
| "parse_day _ = None"

definition is_leap :: "nat \<Rightarrow> bool" where
  "is_leap y \<longleftrightarrow> y mod 4 = 0 \<and> (y mod 100 \<noteq> 0 \<or> y mod 400 = 0)"

definition days_in_month :: "nat \<Rightarrow> nat \<Rightarrow> nat" where
  "days_in_month y m =
     (if m = 2 then (if is_leap y then 29 else 28)
      else if m = 4 \<or> m = 6 \<or> m = 9 \<or> m = 11 then 30 else 31)"

definition strptime :: "string \<Rightarrow> (nat \<times> nat \<times> nat) option" where
  "strptime s =
     (case s of
        y1 # y2 # y3 # y4 # dash # rest \<Rightarrow>
          if list_all is_digit [y1, y2, y3, y4] \<and> dash = CHR ''-'' then
            (case dropWhile (\<lambda>c. c \<noteq> CHR ''-'') rest of
               [] \<Rightarrow> None
             | _ # ds \<Rightarrow>
               (case (parse_month (takeWhile (\<lambda>c. c \<noteq> CHR ''-'') rest), parse_day ds) of
                  (Some m, Some d) \<Rightarrow>
                    (let y = 1000 * digit_val y1 + 100 * digit_val y2
                             + 10 * digit_val y3 + digit_val y4
                     in if 1 \<le> y \<and> d \<le> days_in_month y m then Some (y, m, d) else None)
                | _ \<Rightarrow> None))
          else None
      | _ \<Rightarrow> None)"

subsection \<open>The endpoints\<close>

definition serialize_announcement :: "doc \<Rightarrow> json" where
  "serialize_announcement d =
     \<lparr>ident = str_oid (ident d), message = message d,
      expiration_date = expiration_date d, start_date = start_date d,
      created_by = created_by d, created_at = created_at d\<rparr>"

text \<open>The query of the public listing, as a predicate on a stored document.\<close>

definition active_query :: "string \<Rightarrow> doc \<Rightarrow> bool" where
  "active_query today d \<longleftrightarrow>
     today \<le> expiration_date d \<and>
     (start_date d = None \<or> start_date d = Some [] \<or>
      (case start_date d of None \<Rightarrow> False | Some s \<Rightarrow> s \<le> today))"

definition get_active_announcements :: "string \<Rightarrow> database \<Rightarrow> json list" where
  "get_active_announcements today db =
     map serialize_announcement
       (sort_desc (filter (active_query today) (announcements_collection db)))"

text \<open>
  A query parameter declared \<^verbatim>\<open>Optional[str] = Query("")\<close>: \<open>None\<close> is Python's
  \<^verbatim>\<open>None\<close>, and a request that omits the parameter passes \<open>Some []\<close>.
  \<open>truthy\<close> is the test \<^verbatim>\<open>if start_date:\<close> and \<open>or_empty\<close> the expression
  \<^verbatim>\<open>start_date or ""\<close>.
\<close>

definition truthy :: "string option \<Rightarrow> bool" where
  "truthy v = (case v of None \<Rightarrow> False | Some s \<Rightarrow> s \<noteq> [])"

definition or_empty :: "string option \<Rightarrow> string" where
  "or_empty v = (case v of None \<Rightarrow> [] | Some s \<Rightarrow> s)"

text \<open>The guarded block that validates the optional start date raises.\<close>

definition start_date_raises :: "string option \<Rightarrow> bool" where
  "start_date_raises v =
     (case v of None \<Rightarrow> False | Some s \<Rightarrow> truthy v \<and> strptime s = None)"

definition auth_error :: error where
  "auth_error = HTTPException 401 ''Authentication required''"

definition invalid_id_error :: error where
  "invalid_id_error = HTTPException 400 ''Invalid announcement ID''"

definition not_found_error :: error where
  "not_found_error = HTTPException 404 ''Announcement not found''"

definition expiration_date_error :: error where
  "expiration_date_error = HTTPException 400 ''Invalid expiration_date format. Use YYYY-MM-DD.''"

definition start_date_error :: error where
  "start_date_error = HTTPException 400 ''Invalid start_date format. Use YYYY-MM-DD.''"

definition get_all_announcements :: "database \<Rightarrow> string \<Rightarrow> (error + json list) \<times> database" where
  "get_all_announcements db teacher_username =
     (case teachers_find_one db teacher_username of
        None \<Rightarrow> (Inl auth_error, db)
      | Some teacher \<Rightarrow>
          (Inr (map serialize_announcement (sort_desc (announcements_collection db))), db))"

text \<open>
  \<open>new_id\<close> is the key \<^verbatim>\<open>insert_one\<close> gives the document and \<open>now\<close> the value of
  \<^verbatim>\<open>datetime.now().isoformat()\<close>. The returned dictionary is the inserted document
  with \<^verbatim>\<open>_id\<close> replaced by \<^verbatim>\<open>id\<close>.
\<close>

definition create_announcement ::
  "database \<Rightarrow> objectid \<Rightarrow> string \<Rightarrow> string \<Rightarrow> string \<Rightarrow> string option \<Rightarrow> string
     \<Rightarrow> (error + json) \<times> database" where
  "create_announcement db new_id now msg expiration start teacher_username =
     (case teachers_find_one db teacher_username of
        None \<Rightarrow> (Inl auth_error, db)
      | Some teacher \<Rightarrow>
     (case strptime expiration of
        None \<Rightarrow> (Inl expiration_date_error, db)
      | Some parsed \<Rightarrow>
     if start_date_raises start then (Inl start_date_error, db)
     else
       (let d = \<lparr>ident = new_id, message = msg, expiration_date = expiration,
                 start_date = Some (or_empty start), created_by = teacher_username,
                 created_at = now\<rparr>
        in case insert_one db d of
             Inl e \<Rightarrow> (Inl e, db)
           | Inr db' \<Rightarrow> (Inr (serialize_announcement d), db'))))"

definition update_announcement ::
  "database \<Rightarrow> string \<Rightarrow> string \<Rightarrow> string \<Rightarrow> string option \<Rightarrow> string
     \<Rightarrow> (error + json) \<times> database" where
  "update_announcement db announcement_id msg expiration start teacher_username =
     (case teachers_find_one db teacher_username of
        None \<Rightarrow> (Inl auth_error, db)
      | Some teacher \<Rightarrow>
     (case ObjectId announcement_id of
        None \<Rightarrow> (Inl invalid_id_error, db)
      | Some obj_id \<Rightarrow>
     (case find_one db obj_id of
        None \<Rightarrow> (Inl not_found_error, db)
      | Some existing \<Rightarrow>
     (case strptime expiration of
        None \<Rightarrow> (Inl expiration_date_error, db)
      | Some parsed \<Rightarrow>
     if start_date_raises start then (Inl start_date_error, db)
     else
       (let db' = update_one db obj_id
                    (\<lambda>d. d\<lparr>message := msg, expiration_date := expiration,
                            start_date := Some (or_empty start)\<rparr>)
        in case find_one db' obj_id of
             None \<Rightarrow> (Inl AttributeError, db')
           | Some updated \<Rightarrow> (Inr (serialize_announcement updated), db'))))))"

definition delete_announcement ::
  "database \<Rightarrow> string \<Rightarrow> string \<Rightarrow> (error + string) \<times> database" where
  "delete_announcement db announcement_id teacher_username =
     (case teachers_find_one db teacher_username of
        None \<Rightarrow> (Inl auth_error, db)
      | Some teacher \<Rightarrow>
     (case ObjectId announcement_id of
        None \<Rightarrow> (Inl invalid_id_error, db)
      | Some obj_id \<Rightarrow>
     (case delete_one db obj_id of
        (deleted_count, db') \<Rightarrow>
          if deleted_count = 0 then (Inl not_found_error, db')
          else (Inr ''Announcement deleted successfully'', db'))))"

subsection \<open>Example data\<close>

definition key1 :: string where
  "key1 = ''65a1b2c3d4e5f60718293a4b''"

definition key2 :: string where
  "key2 = ''65a1b2c3d4e5f60718293a4c''"

definition key3 :: string where
  "key3 = ''65a1b2c3d4e5f60718293a4d''"

definition ann1 :: doc where
  "ann1 = \<lparr>ident = Oid key1, message = ''Science fair'',
           expiration_date = ''2024-06-15'', start_date = Some ''2024-06-01'',
           created_by = ''mrodriguez'', created_at = ''2024-05-20T09:00:00''\<rparr>"

definition ann2 :: doc where
  "ann2 = \<lparr>ident = Oid key2, message = ''Exam week'',
           expiration_date = ''2024-07-01'', start_date = Some ''2024-06-20'',
           created_by = ''mchen'', created_at = ''2024-05-21T10:30:00''\<rparr>"

definition school_db :: database where
  "school_db = \<lparr>announcements_collection = [ann1, ann2],
                teachers_collection = [''mrodriguez'', ''mchen'']\<rparr>"

definition ann3 :: doc where
  "ann3 = \<lparr>ident = Oid key3, message = ''Field trip'',
           expiration_date = ''2099-01-01'', start_date = Some [],
           created_by = ''mchen'', created_at = ''2024-06-01T08:00:00''\<rparr>"

section \<open>Auxiliary facts\<close>

lemma str_oid_inj: "str_oid a = str_oid b \<Longrightarrow> a = b"
  by (cases a; cases b) simp

lemma serialize_inj: "serialize_announcement a = serialize_announcement b \<Longrightarrow> a = b"
  by (cases a; cases b) (simp add: serialize_announcement_def str_oid_inj)

lemma serialize_mem: "serialize_announcement a \<in> serialize_announcement ` S \<longleftrightarrow> a \<in> S"
  using serialize_inj by blast

lemma set_sort_desc: "set (sort_desc ds) = set ds"
  by (simp add: sort_desc_def)

lemma teachers_find_one_None:
  "teachers_find_one db u = None \<longleftrightarrow> u \<notin> set (teachers_collection db)"
  by (auto simp: teachers_find_one_def find_None_iff)

lemma teachers_find_one_Some:
  "u \<in> set (teachers_collection db) \<Longrightarrow> \<exists>t. teachers_find_one db u = Some t"
  using teachers_find_one_None [of db u] by (cases "teachers_find_one db u") auto

lemma find_one_None:
  "find_one db k = None \<longleftrightarrow> (\<forall>d \<in> set (announcements_collection db). ident d \<noteq> k)"
  by (auto simp: find_one_def find_None_iff)

lemma find_one_ident: "find_one db k = Some d \<Longrightarrow> ident d = k \<and> d \<in> set (announcements_collection db)"
  by (auto simp: find_one_def find_Some_iff)


lemma find_set_first:
  "find (\<lambda>d. ident d = k) ds = Some old \<Longrightarrow> ident (f old) = k \<Longrightarrow>
   find (\<lambda>d. ident d = k) (set_first k f ds) = Some (f old)"
  by (induction ds) (auto split: if_splits)

lemma find_set_first_other:
  "(\<And>d. ident (f d) = ident d) \<Longrightarrow> k' \<noteq> k \<Longrightarrow>
   find (\<lambda>d. ident d = k') (set_first k f ds) = find (\<lambda>d. ident d = k') ds"
  by (induction ds) auto

lemma map_ident_set_first:
  "(\<And>d. ident (f d) = ident d) \<Longrightarrow> map ident (set_first k f ds) = map ident ds"
  by (induction ds) auto

lemma find_appended:
  "\<forall>e \<in> set ds. ident e \<noteq> ident d \<Longrightarrow> find (\<lambda>e. ident e = ident d) (ds @ [d]) = Some d"
  by (induction ds) auto

lemma find_one_inserted:
  "\<forall>e \<in> set (announcements_collection db). ident e \<noteq> ident d \<Longrightarrow>
   find_one (db\<lparr>announcements_collection := announcements_collection db @ [d]\<rparr>) (ident d) = Some d"
  by (simp add: find_one_def find_appended)

lemma update_auth_invalid_id:
  "u \<in> set (teachers_collection db) \<Longrightarrow> ObjectId i = None \<Longrightarrow>
   update_announcement db i m e s u = (Inl invalid_id_error, db)"
  using teachers_find_one_Some [of u db] by (auto simp: update_announcement_def)

lemma update_auth_absent:
  "u \<in> set (teachers_collection db) \<Longrightarrow> ObjectId i = Some k \<Longrightarrow> find_one db k = None \<Longrightarrow>
   update_announcement db i m e s u = (Inl not_found_error, db)"
  using teachers_find_one_Some [of u db] by (auto simp: update_announcement_def)



lemma update_success:
  assumes "update_announcement db i m e s u = (Inr r, db')"
  shows "\<exists>k old. ObjectId i = Some k \<and> find_one db k = Some old \<and>
           db' = update_one db k (\<lambda>d. d\<lparr>message := m, expiration_date := e, start_date := Some (or_empty s)\<rparr>) \<and>
           find_one db' k = Some (old\<lparr>message := m, expiration_date := e, start_date := Some (or_empty s)\<rparr>) \<and>
           r = serialize_announcement (old\<lparr>message := m, expiration_date := e, start_date := Some (or_empty s)\<rparr>)"
proof -
  let ?f = "\<lambda>d::doc. d\<lparr>message := m, expiration_date := e, start_date := Some (or_empty s)\<rparr>"
  from assms obtain k old where k: "ObjectId i = Some k" and old: "find_one db k = Some old"
    and rest: "(case find_one (update_one db k ?f) k of
             None \<Rightarrow> (Inl AttributeError, update_one db k ?f)
           | Some updated \<Rightarrow> (Inr (serialize_announcement updated), update_one db k ?f)) = (Inr r, db')"
    by (auto simp: update_announcement_def Let_def split: option.splits if_splits)
  have "ident (?f old) = k" using find_one_ident [OF old] by simp
  with old have "find_one (update_one db k ?f) k = Some (?f old)"
    by (simp add: find_one_def update_one_def find_set_first)
  with rest k old show ?thesis by auto
qed

lemma create_success:
  assumes "create_announcement db k now m e s u = (Inr r, db')"
  shows "r = serialize_announcement \<lparr>ident = k, message = m, expiration_date = e,
                 start_date = Some (or_empty s), created_by = u, created_at = now\<rparr> \<and>
         db' = db\<lparr>announcements_collection := announcements_collection db @
                [\<lparr>ident = k, message = m, expiration_date = e,
                 start_date = Some (or_empty s), created_by = u, created_at = now\<rparr>]\<rparr> \<and>
         (\<forall>d \<in> set (announcements_collection db). ident d \<noteq> k)"
  using assms
  by (auto simp: create_announcement_def insert_one_def Let_def list_ex_iff
           split: option.splits if_splits)

lemmas ex_defs = school_db_def ann1_def ann2_def ann3_def key1_def key2_def key3_def
lemmas err_defs = auth_error_def invalid_id_error_def not_found_error_def
  expiration_date_error_def start_date_error_def

lemmas eval_defs = 
  create_announcement_def update_announcement_def delete_announcement_def
  teachers_find_one_def find_one_def insert_one_def update_one_def delete_one_def
  ObjectId_def is_hex_def lower_hex_def is_space_def strptime_def is_digit_def digit_val_def
  days_in_month_def is_leap_def start_date_raises_def truthy_def or_empty_def
  serialize_announcement_def

section \<open>The claims\<close>

text \<open>
  C1. An announcement appears in the public listing exactly when it is in the store, its
  expiration date is today or later, and its start date is absent, empty, or today or
  earlier; dates are compared as strings.
\<close>

theorem list_active_iff:
  "serialize_announcement A \<in> set (get_active_announcements today db) \<longleftrightarrow>
     A \<in> set (announcements_collection db) \<and>
     today \<le> expiration_date A \<and>
     (start_date A = None \<or> start_date A = Some [] \<or>
      (\<exists>s. start_date A = Some s \<and> s \<le> today))"
  by (auto simp: get_active_announcements_def set_sort_desc serialize_mem active_query_def
           split: option.splits)

theorem list_active_iff_witness:
  "serialize_announcement ann1 \<in> set (get_active_announcements ''2024-06-10'' school_db) \<and>
   serialize_announcement ann2 \<notin> set (get_active_announcements ''2024-06-10'' school_db)"
  using list_active_iff [of ann1 "''2024-06-10''" school_db]
        list_active_iff [of ann2 "''2024-06-10''" school_db]
  by (simp add: ex_defs)

text \<open>
  C2. On the expiration date itself the public listing still returns the announcement:
  with today \<open>2024-06-15\<close> the listing holds the announcement that expires on
  \<open>2024-06-15\<close>.
\<close>

theorem shown_on_expiration_date:
  "expiration_date ann1 = ''2024-06-15'' \<and> ann1 \<in> set (announcements_collection school_db) \<and>
   get_active_announcements ''2024-06-15'' school_db = [serialize_announcement ann1]"
  by (simp add: get_active_announcements_def active_query_def sort_desc_def ex_defs)

text \<open>
  C3. When the username names no teacher, create, update, delete and list-all raise the
  authentication error whatever their other arguments are, and leave the collections as
  they were.
\<close>

theorem unknown_teacher_rejected:
  assumes "teacher_username \<notin> set (teachers_collection db)"
  shows "create_announcement db new_id now msg expiration start teacher_username
           = (Inl (HTTPException 401 ''Authentication required''), db) \<and>
         update_announcement db announcement_id msg expiration start teacher_username
           = (Inl (HTTPException 401 ''Authentication required''), db) \<and>
         delete_announcement db announcement_id teacher_username
           = (Inl (HTTPException 401 ''Authentication required''), db) \<and>
         get_all_announcements db teacher_username
           = (Inl (HTTPException 401 ''Authentication required''), db)"
proof -
  from assms have "teachers_find_one db teacher_username = None"
    by (simp add: teachers_find_one_None)
  then show ?thesis
    by (simp add: create_announcement_def update_announcement_def delete_announcement_def
          get_all_announcements_def auth_error_def)
qed

theorem unknown_teacher_rejected_witness:
  "''ghost'' \<notin> set (teachers_collection school_db) \<and>
   create_announcement school_db (Oid key3) ''2024-06-01T08:00:00'' ''Hello'' ''tomorrow'' (Some ''never'') ''ghost''
     = (Inl (HTTPException 401 ''Authentication required''), school_db) \<and>
   update_announcement school_db ''not-a-valid-key'' ''Hello'' ''tomorrow'' (Some ''never'') ''ghost''
     = (Inl (HTTPException 401 ''Authentication required''), school_db) \<and>
   delete_announcement school_db ''not-a-valid-key'' ''ghost''
     = (Inl (HTTPException 401 ''Authentication required''), school_db) \<and>
   get_all_announcements school_db ''ghost''
     = (Inl (HTTPException 401 ''Authentication required''), school_db)"
proof -
  have h: "''ghost'' \<notin> set (teachers_collection school_db)"
    by (simp add: school_db_def)
  show ?thesis
    using h unknown_teacher_rejected [OF h, of "Oid key3" "''2024-06-01T08:00:00''" "''Hello''"
        "''tomorrow''" "Some ''never''" "''not-a-valid-key''"]
    by simp
qed

text \<open>
  C4. For an authenticated teacher, update checks that the record exists before it looks
  at the dates: a well-formed key that matches no record gives the not-found error
  whatever the dates are, and a date error is raised only when the key is well formed
  and a record with that key exists.
\<close>

theorem update_checks_existence_before_dates:
  assumes "teacher_username \<in> set (teachers_collection db)"
  shows "(\<forall>obj_id. ObjectId announcement_id = Some obj_id \<and>
            (\<forall>d \<in> set (announcements_collection db). ident d \<noteq> obj_id) \<longrightarrow>
            update_announcement db announcement_id msg expiration start teacher_username
              = (Inl (HTTPException 404 ''Announcement not found''), db)) \<and>
         (fst (update_announcement db announcement_id msg expiration start teacher_username)
              = Inl (HTTPException 400 ''Invalid expiration_date format. Use YYYY-MM-DD.'') \<or>
          fst (update_announcement db announcement_id msg expiration start teacher_username)
              = Inl (HTTPException 400 ''Invalid start_date format. Use YYYY-MM-DD.'') \<longrightarrow>
          (\<exists>obj_id d. ObjectId announcement_id = Some obj_id \<and>
             d \<in> set (announcements_collection db) \<and> ident d = obj_id))"
proof (intro conjI allI impI)
  fix obj_id
  assume h: "ObjectId announcement_id = Some obj_id \<and>
    (\<forall>d \<in> set (announcements_collection db). ident d \<noteq> obj_id)"
  then have "find_one db obj_id = None" by (simp add: find_one_None)
  with assms h show "update_announcement db announcement_id msg expiration start teacher_username
      = (Inl (HTTPException 404 ''Announcement not found''), db)"
    using update_auth_absent [of teacher_username db announcement_id obj_id msg expiration start]
    by (simp add: not_found_error_def)
next
  let ?r = "update_announcement db announcement_id msg expiration start teacher_username"
  assume h: "fst ?r = Inl (HTTPException 400 ''Invalid expiration_date format. Use YYYY-MM-DD.'') \<or>
          fst ?r = Inl (HTTPException 400 ''Invalid start_date format. Use YYYY-MM-DD.'')"
  show "\<exists>obj_id d. ObjectId announcement_id = Some obj_id \<and>
             d \<in> set (announcements_collection db) \<and> ident d = obj_id"
  proof (cases "ObjectId announcement_id")
    case None
    with assms have "?r = (Inl invalid_id_error, db)" by (rule update_auth_invalid_id)
    with h show ?thesis by (simp add: invalid_id_error_def)
  next
    case (Some k)
    show ?thesis
    proof (cases "find_one db k")
      case None
      with assms Some have "?r = (Inl not_found_error, db)" by (simp add: update_auth_absent)
      with h show ?thesis by (simp add: not_found_error_def)
    next
      case (Some d)
      with \<open>ObjectId announcement_id = Some k\<close> find_one_ident [OF Some] show ?thesis by blast
    qed
  qed
qed

theorem update_checks_existence_before_dates_witness:
  "''mchen'' \<in> set (teachers_collection school_db) \<and>
   ObjectId key3 = Some (Oid key3) \<and>
   strptime ''20990101'' = None \<and>
   update_announcement school_db key3 ''New'' ''20990101'' None ''mchen''
     = (Inl (HTTPException 404 ''Announcement not found''), school_db) \<and>
   update_announcement school_db key1 ''New'' ''20990101'' None ''mchen''
     = (Inl (HTTPException 400 ''Invalid expiration_date format. Use YYYY-MM-DD.''), school_db) \<and>
   ObjectId key1 = Some (Oid key1) \<and> ann1 \<in> set (announcements_collection school_db) \<and>
   ident ann1 = Oid key1"
proof -
  have t: "''mchen'' \<in> set (teachers_collection school_db)"
    by (simp add: school_db_def)
  have k: "ObjectId key3 = Some (Oid key3)"
    by (simp add: ObjectId_def is_hex_def lower_hex_def is_space_def key3_def)
  have a: "\<forall>d \<in> set (announcements_collection school_db). ident d \<noteq> Oid key3"
    by (simp add: ex_defs)
  have e: "update_announcement school_db key1 ''New'' ''20990101'' None ''mchen''
     = (Inl (HTTPException 400 ''Invalid expiration_date format. Use YYYY-MM-DD.''), school_db)"
    by (simp add: eval_defs err_defs ex_defs)
  have s: "strptime ''20990101'' = None"
    by (simp add: strptime_def is_digit_def)
  have k1: "ObjectId key1 = Some (Oid key1)"
    by (simp add: ObjectId_def is_hex_def lower_hex_def is_space_def key1_def)
  have m: "ann1 \<in> set (announcements_collection school_db) \<and> ident ann1 = Oid key1"
    by (simp add: ex_defs)
  from update_checks_existence_before_dates [OF t, of key3 "''New''" "''20990101''" None]
  have "update_announcement school_db key3 ''New'' ''20990101'' None ''mchen''
     = (Inl (HTTPException 404 ''Announcement not found''), school_db)"
    using k a by blast
  with t k s e k1 m show ?thesis by blast
qed

text \<open>
  C5. Update by an authenticated teacher with the key \<open>not-a-valid-key\<close> raises
  400 \<open>Invalid announcement ID\<close>, which is not the not-found error.
\<close>

theorem update_malformed_id_is_400:
  "''mchen'' \<in> set (teachers_collection school_db) \<and>
   ObjectId ''not-a-valid-key'' = None \<and>
   update_announcement school_db ''not-a-valid-key'' ''New'' ''2099-01-01'' (Some []) ''mchen''
     = (Inl (HTTPException 400 ''Invalid announcement ID''), school_db) \<and>
   fst (update_announcement school_db ''not-a-valid-key'' ''New'' ''2099-01-01'' (Some []) ''mchen'')
     \<noteq> Inl (HTTPException 404 ''Announcement not found'')"
  by (simp add: update_announcement_def teachers_find_one_def ObjectId_def
        invalid_id_error_def school_db_def)

text \<open>
  C5, as the code has it. For an authenticated teacher, update with a key that is not
  structurally valid (one that \<^verbatim>\<open>ObjectId\<close> refuses: not 24 characters long,
  or not made of pairs of hexadecimal digits with optional whitespace between the pairs)
  raises 400 \<open>Invalid announcement ID\<close> and leaves the collections as they were.
\<close>

theorem update_malformed_id_rejected:
  assumes "teacher_username \<in> set (teachers_collection db)"
    and "ObjectId announcement_id = None"
  shows "update_announcement db announcement_id msg expiration start teacher_username
           = (Inl (HTTPException 400 ''Invalid announcement ID''), db)"
  using update_auth_invalid_id [OF assms] by (simp add: invalid_id_error_def)

theorem update_malformed_id_rejected_witness:
  "''mrodriguez'' \<in> set (teachers_collection school_db) \<and>
   ObjectId ''65a1b2c3d4e5f60718293a4z'' = None \<and>
   update_announcement school_db ''65a1b2c3d4e5f60718293a4z'' ''New'' ''2099-01-01'' None ''mrodriguez''
     = (Inl (HTTPException 400 ''Invalid announcement ID''), school_db)"
proof -
  have t: "''mrodriguez'' \<in> set (teachers_collection school_db)"
    by (simp add: school_db_def)
  have k: "ObjectId ''65a1b2c3d4e5f60718293a4z'' = None"
    by (simp add: ObjectId_def is_hex_def is_space_def)
  show ?thesis
    using t k update_malformed_id_rejected [OF t k, of "''New''" "''2099-01-01''" None]
    by simp
qed



text \<open>
  C7. A successful create appends one record to the store, under a key the store did not
  hold, and changes nothing else. The record has the supplied message and expiration
  date, \<open>created_by\<close> equal to the supplied username and \<open>created_at\<close> equal
  to the time of the call; its \<open>start_date\<close> is the empty string when none was
  supplied and the supplied one otherwise. The value returned has the same message,
  dates, \<open>created_by\<close> and \<open>created_at\<close> as the stored record, and as its
  \<open>id\<close> the text of the new key.
\<close>

theorem create_persists_record:
  assumes "create_announcement db (Oid h) now msg expiration start teacher_username = (Inr r, db')"
  shows "\<exists>d. announcements_collection db' = announcements_collection db @ [d] \<and>
           teachers_collection db' = teachers_collection db \<and>
           find_one db' (Oid h) = Some d \<and>
           (\<forall>e \<in> set (announcements_collection db). ident e \<noteq> Oid h) \<and>
           ident d = Oid h \<and> message d = msg \<and> expiration_date d = expiration \<and>
           created_by d = teacher_username \<and> created_at d = now \<and>
           (start = None \<or> start = Some [] \<longrightarrow> start_date d = Some []) \<and>
           (\<forall>s. start = Some s \<longrightarrow> start_date d = Some s) \<and>
           ident r = h \<and> message r = message d \<and>
           expiration_date r = expiration_date d \<and> start_date r = start_date d \<and>
           created_by r = created_by d \<and> created_at r = created_at d \<and>
           r = \<lparr>ident = h, message = msg, expiration_date = expiration,
                start_date = start_date d, created_by = teacher_username, created_at = now\<rparr>"
proof -
  let ?d = "\<lparr>ident = Oid h, message = msg, expiration_date = expiration,
             start_date = Some (or_empty start), created_by = teacher_username,
             created_at = now\<rparr>"
  from create_success [OF assms]
  have r: "r = serialize_announcement ?d"
    and db': "db' = db\<lparr>announcements_collection := announcements_collection db @ [?d]\<rparr>"
    and new: "\<forall>e \<in> set (announcements_collection db). ident e \<noteq> Oid h"
    by simp_all
  from new have f: "find_one db' (Oid h) = Some ?d"
    using find_one_inserted [of db ?d] by (simp add: db')
  have s: "(start = None \<or> start = Some [] \<longrightarrow> start_date ?d = Some []) \<and>
           (\<forall>s. start = Some s \<longrightarrow> start_date ?d = Some s)"
    by (auto simp: or_empty_def)
  have r': "r = \<lparr>ident = h, message = msg, expiration_date = expiration,
                start_date = start_date ?d, created_by = teacher_username, created_at = now\<rparr>"
    by (simp add: r serialize_announcement_def)
  show ?thesis
    using f s new r' by (intro exI [of _ ?d]) (simp add: db')
qed

theorem create_persists_record_witness:
  "create_announcement school_db (Oid key3) ''2024-06-01T08:00:00'' ''Field trip''
      ''2099-01-01'' None ''mchen''
     = (Inr \<lparr>ident = key3, message = ''Field trip'', expiration_date = ''2099-01-01'',
             start_date = Some [], created_by = ''mchen'',
             created_at = ''2024-06-01T08:00:00''\<rparr>,
        school_db\<lparr>announcements_collection := [ann1, ann2, ann3]\<rparr>) \<and>
   find_one (school_db\<lparr>announcements_collection := [ann1, ann2, ann3]\<rparr>) (Oid key3) = Some ann3 \<and>
   created_by ann3 = ''mchen'' \<and> created_at ann3 = ''2024-06-01T08:00:00'' \<and>
   start_date ann3 = Some []"
proof -
  let ?db' = "school_db\<lparr>announcements_collection := [ann1, ann2, ann3]\<rparr>"
  have h: "create_announcement school_db (Oid key3) ''2024-06-01T08:00:00'' ''Field trip''
      ''2099-01-01'' None ''mchen''
     = (Inr \<lparr>ident = key3, message = ''Field trip'', expiration_date = ''2099-01-01'',
             start_date = Some [], created_by = ''mchen'',
             created_at = ''2024-06-01T08:00:00''\<rparr>, ?db')"
    by (simp add: eval_defs ex_defs)
  from create_persists_record [OF h] obtain d where
    a: "announcements_collection ?db' = announcements_collection school_db @ [d]"
    and f: "find_one ?db' (Oid key3) = Some d"
    and c: "created_by d = ''mchen''" "created_at d = ''2024-06-01T08:00:00''"
    and s: "(None :: string option) = None \<or> (None :: string option) = Some [] \<longrightarrow> start_date d = Some []"
    by (elim exE conjE)
  from a have "d = ann3" by (simp add: school_db_def)
  with h f c s show ?thesis by simp
qed

text \<open>
  C8. A successful update replaces the message, the expiration date and the start date of
  the target record and nothing else: its key, \<open>created_by\<close> and
  \<open>created_at\<close> are those it had before, the keys of the store are unchanged, and
  so is the record found under every other key.
\<close>

theorem update_replaces_three_fields:
  assumes "update_announcement db announcement_id msg expiration start teacher_username = (Inr r, db')"
  shows "\<exists>obj_id old new. ObjectId announcement_id = Some obj_id \<and>
           find_one db obj_id = Some old \<and> find_one db' obj_id = Some new \<and>
           new = old\<lparr>message := msg, expiration_date := expiration,
                      start_date := Some (or_empty start)\<rparr> \<and>
           ident new = ident old \<and> created_by new = created_by old \<and>
           created_at new = created_at old \<and>
           map ident (announcements_collection db') = map ident (announcements_collection db) \<and>
           (\<forall>k. k \<noteq> obj_id \<longrightarrow> find_one db' k = find_one db k) \<and>
           teachers_collection db' = teachers_collection db"
proof -
  from update_success [OF assms] obtain k old where
    k: "ObjectId announcement_id = Some k" and old: "find_one db k = Some old"
    and db': "db' = update_one db k (\<lambda>d. d\<lparr>message := msg, expiration_date := expiration,
                      start_date := Some (or_empty start)\<rparr>)"
    and new: "find_one db' k = Some (old\<lparr>message := msg, expiration_date := expiration,
                      start_date := Some (or_empty start)\<rparr>)"
    by blast
  have "map ident (announcements_collection db') = map ident (announcements_collection db)"
    by (simp add: db' update_one_def map_ident_set_first)
  moreover have "\<forall>k'. k' \<noteq> k \<longrightarrow> find_one db' k' = find_one db k'"
    by (simp add: db' update_one_def find_one_def find_set_first_other)
  moreover have "teachers_collection db' = teachers_collection db"
    by (simp add: db' update_one_def)
  ultimately show ?thesis using k old new by simp
qed

theorem update_replaces_three_fields_witness:
  "update_announcement school_db key1 ''Science fair moved'' ''2024-06-30'' (Some ''2024-06-05'') ''mchen''
     = (Inr (serialize_announcement (ann1\<lparr>message := ''Science fair moved'',
               expiration_date := ''2024-06-30'', start_date := Some ''2024-06-05''\<rparr>)),
        school_db\<lparr>announcements_collection :=
          [ann1\<lparr>message := ''Science fair moved'', expiration_date := ''2024-06-30'',
                 start_date := Some ''2024-06-05''\<rparr>, ann2]\<rparr>) \<and>
   (\<exists>new. find_one (school_db\<lparr>announcements_collection :=
          [ann1\<lparr>message := ''Science fair moved'', expiration_date := ''2024-06-30'',
                 start_date := Some ''2024-06-05''\<rparr>, ann2]\<rparr>) (Oid key1) = Some new \<and>
      ident new = Oid key1 \<and> created_by new = ''mrodriguez'' \<and>
      created_at new = ''2024-05-20T09:00:00'')"
proof -
  have h: "update_announcement school_db key1 ''Science fair moved'' ''2024-06-30'' (Some ''2024-06-05'') ''mchen''
     = (Inr (serialize_announcement (ann1\<lparr>message := ''Science fair moved'',
               expiration_date := ''2024-06-30'', start_date := Some ''2024-06-05''\<rparr>)),
        school_db\<lparr>announcements_collection :=
          [ann1\<lparr>message := ''Science fair moved'', expiration_date := ''2024-06-30'',
                 start_date := Some ''2024-06-05''\<rparr>, ann2]\<rparr>)"
    by (simp add: eval_defs ex_defs)
  have k: "ObjectId key1 = Some (Oid key1)"
    by (simp add: ObjectId_def is_hex_def lower_hex_def is_space_def key1_def)
  have o: "find_one school_db (Oid key1) = Some ann1"
    by (simp add: find_one_def ex_defs)
  from update_replaces_three_fields [OF h] obtain obj_id old new where
    k': "ObjectId key1 = Some obj_id" and o': "find_one school_db obj_id = Some old"
    and n: "find_one (school_db\<lparr>announcements_collection :=
          [ann1\<lparr>message := ''Science fair moved'', expiration_date := ''2024-06-30'',
                 start_date := Some ''2024-06-05''\<rparr>, ann2]\<rparr>) obj_id = Some new"
    and same: "ident new = ident old" "created_by new = created_by old"
      "created_at new = created_at old"
    by (elim exE conjE)
  from k k' have "obj_id = Oid key1" by simp
  moreover from this o o' have "old = ann1" by simp
  ultimately have "ident new = Oid key1 \<and> created_by new = ''mrodriguez'' \<and>
      created_at new = ''2024-05-20T09:00:00''"
    using same by (simp add: ann1_def)
  with n \<open>obj_id = Oid key1\<close> h show ?thesis by blast
qed

text \<open>
  C9. Create with the empty message succeeds and persists a record whose message is the
  empty string.
\<close>

theorem create_stores_empty_message:
  "create_announcement school_db (Oid key3) ''2024-06-01T08:00:00'' [] ''2099-01-01'' (Some [])
      ''mchen''
     = (Inr (serialize_announcement (ann3\<lparr>message := []\<rparr>)),
        school_db\<lparr>announcements_collection := [ann1, ann2, ann3\<lparr>message := []\<rparr>]\<rparr>) \<and>
   message (last (announcements_collection (snd
     (create_announcement school_db (Oid key3) ''2024-06-01T08:00:00'' [] ''2099-01-01'' (Some [])
        ''mchen'')))) = []"
  by (simp add: eval_defs ex_defs)

text \<open>
  C9, as the code has it. The record that a successful create or update stores, and the
  value it returns, carry exactly the message supplied by the caller; no check rejects
  the empty message.
\<close>

theorem stored_message_is_supplied_message:
  "(create_announcement db new_id now msg expiration start teacher_username = (Inr r, db') \<longrightarrow>
      message r = msg \<and>
      (\<exists>d. find_one db' new_id = Some d \<and> message d = msg)) \<and>
   (update_announcement db announcement_id msg expiration start teacher_username = (Inr r, db') \<longrightarrow>
      message r = msg \<and>
      (\<exists>obj_id d. ObjectId announcement_id = Some obj_id \<and>
         find_one db' obj_id = Some d \<and> message d = msg))"
proof (intro conjI impI)
  assume h: "create_announcement db new_id now msg expiration start teacher_username = (Inr r, db')"
  let ?d = "\<lparr>ident = new_id, message = msg, expiration_date = expiration,
             start_date = Some (or_empty start), created_by = teacher_username,
             created_at = now\<rparr>"
  from create_success [OF h]
  have r: "r = serialize_announcement ?d"
    and db': "db' = db\<lparr>announcements_collection := announcements_collection db @ [?d]\<rparr>"
    and new: "\<forall>e \<in> set (announcements_collection db). ident e \<noteq> new_id"
    by simp_all
  from new have "find_one db' new_id = Some ?d"
    using find_one_inserted [of db ?d] by (simp add: db')
  then show "\<exists>d. find_one db' new_id = Some d \<and> message d = msg" by simp
  show "message r = msg" by (simp add: r serialize_announcement_def)
next
  assume h: "update_announcement db announcement_id msg expiration start teacher_username = (Inr r, db')"
  from update_success [OF h] obtain k old where
    k: "ObjectId announcement_id = Some k"
    and new: "find_one db' k = Some (old\<lparr>message := msg, expiration_date := expiration,
                      start_date := Some (or_empty start)\<rparr>)"
    and r: "r = serialize_announcement (old\<lparr>message := msg, expiration_date := expiration,
                      start_date := Some (or_empty start)\<rparr>)"
    by blast
  from k new show "\<exists>obj_id d. ObjectId announcement_id = Some obj_id \<and>
         find_one db' obj_id = Some d \<and> message d = msg" by simp
  from r show "message r = msg" by (simp add: serialize_announcement_def)
qed

theorem stored_message_is_supplied_message_witness:
  "update_announcement school_db key2 [] ''2024-07-01'' (Some ''2024-06-20'') ''mrodriguez''
     = (Inr (serialize_announcement (ann2\<lparr>message := []\<rparr>)),
        school_db\<lparr>announcements_collection := [ann1, ann2\<lparr>message := []\<rparr>]\<rparr>) \<and>
   message (serialize_announcement (ann2\<lparr>message := []\<rparr>)) = [] \<and>
   create_announcement school_db (Oid key3) ''2024-06-01T08:00:00'' ''Field trip''
      ''2099-01-01'' (Some []) ''mchen''
     = (Inr (serialize_announcement ann3),
        school_db\<lparr>announcements_collection := [ann1, ann2, ann3]\<rparr>) \<and>
   message (serialize_announcement ann3) = ''Field trip''"
proof -
  have u: "update_announcement school_db key2 [] ''2024-07-01'' (Some ''2024-06-20'') ''mrodriguez''
     = (Inr (serialize_announcement (ann2\<lparr>message := []\<rparr>)),
        school_db\<lparr>announcements_collection := [ann1, ann2\<lparr>message := []\<rparr>]\<rparr>)"
    by (simp add: eval_defs ex_defs)
  have c: "create_announcement school_db (Oid key3) ''2024-06-01T08:00:00'' ''Field trip''
      ''2099-01-01'' (Some []) ''mchen''
     = (Inr (serialize_announcement ann3),
        school_db\<lparr>announcements_collection := [ann1, ann2, ann3]\<rparr>)"
    by (simp add: eval_defs ex_defs)
  from u c
    stored_message_is_supplied_message [of school_db "Oid key3" "''2024-06-01T08:00:00''"
      "''Field trip''" "''2099-01-01''" "Some []" "''mchen''" "serialize_announcement ann3"
      "school_db\<lparr>announcements_collection := [ann1, ann2, ann3]\<rparr>"]
    stored_message_is_supplied_message [of school_db _ _ "[]" "''2024-07-01''"
      "Some ''2024-06-20''" "''mrodriguez''" "serialize_announcement (ann2\<lparr>message := []\<rparr>)"
      "school_db\<lparr>announcements_collection := [ann1, ann2\<lparr>message := []\<rparr>]\<rparr>" key2]
  show ?thesis by simp
qed

text \<open>
  C10. After a successful update whose start date is \<^verbatim>\<open>None\<close> or the empty string
  (the value an omitted parameter takes), the start date of the stored record and of the
  returned one is the empty string, whatever it was before.
\<close>

theorem update_clears_start_date:
  assumes "update_announcement db announcement_id msg expiration start teacher_username = (Inr r, db')"
    and "start = None \<or> start = Some []"
  shows "start_date r = Some [] \<and>
         (\<exists>obj_id d. ObjectId announcement_id = Some obj_id \<and>
            find_one db' obj_id = Some d \<and> start_date d = Some [])"
proof -
  from update_success [OF assms(1)] obtain k old where
    k: "ObjectId announcement_id = Some k"
    and new: "find_one db' k = Some (old\<lparr>message := msg, expiration_date := expiration,
                      start_date := Some (or_empty start)\<rparr>)"
    and r: "r = serialize_announcement (old\<lparr>message := msg, expiration_date := expiration,
                      start_date := Some (or_empty start)\<rparr>)"
    by blast
  from assms(2) have e: "or_empty start = []" by (auto simp: or_empty_def)
  from r e have "start_date r = Some []" by (simp add: serialize_announcement_def)
  with k new e show ?thesis by simp
qed

theorem update_clears_start_date_witness:
  "start_date ann1 = Some ''2024-06-01'' \<and>
   find_one school_db (Oid key1) = Some ann1 \<and>
   update_announcement school_db key1 ''Science fair'' ''2024-06-15'' None ''mrodriguez''
     = (Inr (serialize_announcement (ann1\<lparr>start_date := Some []\<rparr>)),
        school_db\<lparr>announcements_collection := [ann1\<lparr>start_date := Some []\<rparr>, ann2]\<rparr>) \<and>
   start_date (serialize_announcement (ann1\<lparr>start_date := Some []\<rparr>)) = Some [] \<and>
   find_one (school_db\<lparr>announcements_collection := [ann1\<lparr>start_date := Some []\<rparr>, ann2]\<rparr>)
      (Oid key1) = Some (ann1\<lparr>start_date := Some []\<rparr>)"
proof -
  have h: "update_announcement school_db key1 ''Science fair'' ''2024-06-15'' None ''mrodriguez''
     = (Inr (serialize_announcement (ann1\<lparr>start_date := Some []\<rparr>)),
        school_db\<lparr>announcements_collection := [ann1\<lparr>start_date := Some []\<rparr>, ann2]\<rparr>)"
    by (simp add: eval_defs ex_defs)
  have s: "(None :: string option) = None \<or> (None :: string option) = Some []" by simp
  have f: "find_one school_db (Oid key1) = Some ann1 \<and> start_date ann1 = Some ''2024-06-01''"
    by (simp add: find_one_def ex_defs)
  have g: "find_one (school_db\<lparr>announcements_collection := [ann1\<lparr>start_date := Some []\<rparr>, ann2]\<rparr>)
      (Oid key1) = Some (ann1\<lparr>start_date := Some []\<rparr>)"
    by (simp add: find_one_def ex_defs)
  from update_clears_start_date [OF h s] h f g show ?thesis by simp
qed

end
